theory Spec2Isabelle
  imports Main
begin

section \<open>The VISA adapter script \<^verbatim>\<open>python/visa_adapter.py\<close>\<close>

text \<open>
  The script forwards the lines of standard input to an instrument through the pyvisa
  library and prints the answers to queries. Everything the script does is a call of a
  collaborator (pyvisa, argparse, the standard streams), so the model is a function from
  the behaviour of the collaborators to the sequence of calls the script makes (its
  trace) and its exit status.

  Modelling decisions:
  \<^item> a Python \<open>str\<close> is a \<^typ>\<open>string\<close>, one \<^typ>\<open>char\<close> per code point (code points
    below 256);
  \<^item> an exception is the text \<open>str(e)\<close> that the handlers print; every exception a
    collaborator raises is an \<open>Exception\<close>, so the handlers of the script catch it;
  \<^item> the instrument has a state of an arbitrary type \<open>'s\<close>: what it answers may depend
    on everything it was sent before;
  \<^item> \<open>print\<close>, \<open>sys.stdout.flush\<close> and \<open>sys.stdin.readlines\<close> do not raise;
  \<^item> one \<open>print\<close> call is one event of the trace, holding the text printed (without the
    newline that \<open>print\<close> adds).
\<close>

subsection \<open>Strings\<close>

type_synonym exn = string

text \<open>\<open>str.isspace\<close> on one character, for the code points below 256: the characters
  9 to 13, 28 to 32, 133 and 160.\<close>

definition isspace :: "char \<Rightarrow> bool" where
  "isspace c =
     (let n = (of_char c :: nat)
      in (9 \<le> n \<and> n \<le> 13) \<or> (28 \<le> n \<and> n \<le> 32) \<or> n = 133 \<or> n = 160)"

text \<open>\<open>str.strip()\<close>: leading and trailing whitespace removed.\<close>

definition lstrip :: "string \<Rightarrow> string" where
  "lstrip s = dropWhile isspace s"

definition rstrip :: "string \<Rightarrow> string" where
  "rstrip s = rev (dropWhile isspace (rev s))"

definition strip :: "string \<Rightarrow> string" where
  "strip s = rstrip (lstrip s)"

text \<open>\<open>s.startswith(p)\<close>\<close>

definition startswith :: "string \<Rightarrow> string \<Rightarrow> bool" where
  "startswith s p = (take (length p) s = p)"

text \<open>The condition of line 28, on the line already stripped:
  \<^verbatim>\<open>not line or line.startswith('#') or line.startswith('//')\<close>\<close>

definition skipped :: "string \<Rightarrow> bool" where
  "skipped line = (line = [] \<or> startswith line ''#'' \<or> startswith line ''//'')"

text \<open>The condition of line 32: \<^verbatim>\<open>'?' in line\<close>\<close>

definition is_query :: "string \<Rightarrow> bool" where
  "is_query line = (CHR ''?'' \<in> set line)"

text \<open>The three messages of the handlers (lines 37, 42 and 48) and the one of the import
  guard (line 7).\<close>

definition error_querying :: "string \<Rightarrow> exn \<Rightarrow> string" where
  "error_querying line e = ''Error querying '' @ [CHR 0x27] @ line @ [CHR 0x27] @ '': '' @ e"

definition error_writing :: "string \<Rightarrow> exn \<Rightarrow> string" where
  "error_writing line e = ''Error writing '' @ [CHR 0x27] @ line @ [CHR 0x27] @ '': '' @ e"

definition error_fatal :: "exn \<Rightarrow> string" where
  "error_fatal e = ''Error: '' @ e"

definition error_import :: string where
  "error_import = ''Error: '' @ [CHR 0x27] @ ''pyvisa'' @ [CHR 0x27]
     @ '' module not found. Please install it using ''
     @ [CHR 0x27] @ ''pip install pyvisa'' @ [CHR 0x27] @ '' or ''
     @ [CHR 0x27] @ ''pip install pyvisa-py'' @ [CHR 0x27] @ ''.''"

subsection \<open>The collaborators\<close>

text \<open>
  The pyvisa library as the script uses it. A call that raises gives the exception
  (\<open>Inl e\<close> or \<open>Some e\<close>), a call that returns gives the result; \<open>query\<close> and \<open>write\<close>
  also give the next state of the instrument, whether they raise or not.
\<close>

record 's pyvisa =
  resource_manager :: "exn option"
  open_resource :: "string \<Rightarrow> exn + 's"
  set_timeout :: "'s \<Rightarrow> int \<Rightarrow> exn + 's"
  query :: "'s \<Rightarrow> string \<Rightarrow> (exn + string) \<times> 's"
  "write" :: "'s \<Rightarrow> string \<Rightarrow> exn option \<times> 's"
  close :: "'s \<Rightarrow> exn option"

text \<open>
  \<open>parser.parse_args()\<close> for the parser of lines 11 to 13 either returns the namespace
  (\<open>resource\<close>, \<open>timeout\<close>; the timeout is a Python \<open>int\<close>, 5000 when the option is absent),
  or ends the process itself: with status 0 after printing the help text (\<open>-h\<close>), with
  status 2 after a usage error (no \<open>resource\<close>, a \<open>--timeout\<close> that is no integer, an
  unknown option).
\<close>

datatype parse_args = Namespace string int | Help | Usage_error

text \<open>The calls the script makes, in the order it makes them. A \<open>query\<close> or \<open>write\<close> call
  is recorded with its argument and with what it returned or raised.\<close>

datatype event =
    Argparse_help
  | Argparse_error
  | ResourceManager
  | Open_resource string
  | Set_timeout int
  | Readlines
  | Query string "exn + string"
  | Write string "exn option"
  | Close
  | Stdout string
  | Stderr string
  | Flush

subsection \<open>The script\<close>

text \<open>The body of the loop (lines 27 to 44) for one line, from the state \<open>inst\<close> of the
  instrument: the events and the next state.\<close>

definition process_line :: "'s pyvisa \<Rightarrow> 's \<Rightarrow> string \<Rightarrow> event list \<times> 's" where
  "process_line v inst raw =
     (let line = strip raw in
      if line = [] \<or> startswith line ''#'' \<or> startswith line ''//'' then ([], inst)
      else if CHR ''?'' \<in> set line then
        (case query v inst line of
           (Inr response, inst') \<Rightarrow>
             ([Query line (Inr response), Stdout (strip response), Flush], inst')
         | (Inl e, inst') \<Rightarrow>
             ([Query line (Inl e), Stderr (error_querying line e), Flush], inst'))
      else
        (case write v inst line of
           (None, inst') \<Rightarrow> ([Write line None, Flush], inst')
         | (Some e, inst') \<Rightarrow>
             ([Write line (Some e), Stderr (error_writing line e), Flush], inst')))"

text \<open>The loop of line 26.\<close>

fun loop :: "'s pyvisa \<Rightarrow> 's \<Rightarrow> string list \<Rightarrow> event list \<times> 's" where
  "loop v inst [] = ([], inst)"
| "loop v inst (raw # rest) =
     (let (evs, inst') = process_line v inst raw;
          (evs', inst'') = loop v inst' rest
      in (evs @ evs', inst''))"

text \<open>\<open>main\<close> (lines 10 to 49): the trace and the exit status. \<open>argv\<close> is what
  \<open>parse_args\<close> does with the command line, \<open>stdin\<close> what \<open>readlines\<close> returns.\<close>

definition main :: "'s pyvisa \<Rightarrow> parse_args \<Rightarrow> string list \<Rightarrow> event list \<times> int" where
  "main v argv stdin =
     (case argv of
        Help \<Rightarrow> ([Argparse_help], 0)
      | Usage_error \<Rightarrow> ([Argparse_error], 2)
      | Namespace resource timeout \<Rightarrow>
     (case resource_manager v of
        Some e \<Rightarrow> ([ResourceManager, Stderr (error_fatal e)], 1)
      | None \<Rightarrow>
     (case open_resource v resource of
        Inl e \<Rightarrow> ([ResourceManager, Open_resource resource, Stderr (error_fatal e)], 1)
      | Inr inst \<Rightarrow>
     (case set_timeout v inst timeout of
        Inl e \<Rightarrow>
          ([ResourceManager, Open_resource resource, Set_timeout timeout,
            Stderr (error_fatal e)], 1)
      | Inr inst1 \<Rightarrow>
     (let (evs, inst2) = loop v inst1 stdin;
          trace = [ResourceManager, Open_resource resource, Set_timeout timeout, Readlines]
                  @ evs @ [Close]
      in case close v inst2 of
           Some e \<Rightarrow> (trace @ [Stderr (error_fatal e)], 1)
         | None \<Rightarrow> (trace, 0))))))"

text \<open>The whole script: the import guard of lines 4 to 8 (\<open>None\<close>: \<open>import pyvisa\<close> raises
  \<open>ImportError\<close>), then \<open>main\<close>.\<close>

definition visa_adapter ::
  "'s pyvisa option \<Rightarrow> parse_args \<Rightarrow> string list \<Rightarrow> event list \<times> int" where
  "visa_adapter pyvisa_module argv stdin =
     (case pyvisa_module of
        None \<Rightarrow> ([Stderr error_import], 1)
      | Some v \<Rightarrow> main v argv stdin)"

subsection \<open>Reading a trace\<close>

text \<open>The \<open>query\<close> and \<open>write\<close> calls of a trace, the commands they were given, the
  queries with their outcomes, and the texts printed to the two streams.\<close>

fun is_call :: "event \<Rightarrow> bool" where
  "is_call (Query c r) = True"
| "is_call (Write c r) = True"
| "is_call _ = False"

definition calls :: "event list \<Rightarrow> event list" where
  "calls tr = filter is_call tr"

fun commands :: "event list \<Rightarrow> string list" where
  "commands [] = []"
| "commands (Query c r # tr) = c # commands tr"
| "commands (Write c r # tr) = c # commands tr"
| "commands (_ # tr) = commands tr"



fun stdout :: "event list \<Rightarrow> string list" where
  "stdout [] = []"
| "stdout (Stdout s # tr) = s # stdout tr"
| "stdout (_ # tr) = stdout tr"

fun stderr :: "event list \<Rightarrow> string list" where
  "stderr [] = []"
| "stderr (Stderr s # tr) = s # stderr tr"
| "stderr (_ # tr) = stderr tr"



subsection \<open>An instrument to run the script on\<close>

text \<open>
  The state counts the commands received. One resource name can be opened; a timeout
  above 4294967294 is refused, as the setter of pyvisa does (\<open>ValueError\<close>); \<open>*IDN?\<close>
  is answered with an identification followed by a newline, any other query times out;
  the write of \<open>BAD\<close> is rejected.
\<close>

definition bench :: "nat pyvisa" where
  "bench =
     \<lparr> resource_manager = None,
       open_resource = (\<lambda>name. if name = ''GPIB0::1::INSTR'' then Inr 0
                               else Inl ''VI_ERROR_RSRC_NFOUND''),
       set_timeout = (\<lambda>s t. if t \<le> 4294967294 then Inr s
                              else Inl ''timeout value is invalid''),
       query = (\<lambda>s c. (if c = ''*IDN?'' then Inr (''ACME,Model1,SN1,v1'' @ [CHR 0x0A])
                        else Inl ''VI_ERROR_TMO'', Suc s)),
       write = (\<lambda>s c. (if c = ''BAD'' then Some ''VI_ERROR_IO'' else None, Suc s)),
       close = (\<lambda>s. None) \<rparr>"

section \<open>Properties\<close>

subsection \<open>One line, the loop, and the projections of a trace\<close>

lemma process_line_skipped:
  "skipped (strip raw) \<Longrightarrow> process_line v inst raw = ([], inst)"
  by (simp add: process_line_def skipped_def)

lemma process_line_query:
  assumes "\<not> skipped (strip raw)" and "is_query (strip raw)"
  shows "process_line v inst raw =
    (Query (strip raw) (fst (query v inst (strip raw)))
       # (case fst (query v inst (strip raw)) of
            Inr response \<Rightarrow> Stdout (strip response)
          | Inl e \<Rightarrow> Stderr (error_querying (strip raw) e))
       # [Flush],
     snd (query v inst (strip raw)))"
  using assms
  by (cases "query v inst (strip raw)")
     (simp add: process_line_def skipped_def is_query_def Let_def split: sum.split)

lemma process_line_write:
  assumes "\<not> skipped (strip raw)" and "\<not> is_query (strip raw)"
  shows "process_line v inst raw =
    (Write (strip raw) (fst (write v inst (strip raw)))
       # (case fst (write v inst (strip raw)) of
            None \<Rightarrow> []
          | Some e \<Rightarrow> [Stderr (error_writing (strip raw) e)])
       @ [Flush],
     snd (write v inst (strip raw)))"
  using assms
  by (cases "write v inst (strip raw)")
     (simp add: process_line_def skipped_def is_query_def Let_def split: option.split)

lemma loop_Cons:
  "loop v inst (raw # rest) =
     (fst (process_line v inst raw) @ fst (loop v (snd (process_line v inst raw)) rest),
      snd (loop v (snd (process_line v inst raw)) rest))"
  by (simp add: split_beta)

lemma loop_append:
  "loop v inst (xs @ ys) =
     (fst (loop v inst xs) @ fst (loop v (snd (loop v inst xs)) ys),
      snd (loop v (snd (loop v inst xs)) ys))"
  by (induction xs arbitrary: inst) (simp_all add: split_beta)

lemma calls_append: "calls (a @ b) = calls a @ calls b"
  by (simp add: calls_def)

lemma commands_append: "commands (a @ b) = commands a @ commands b"
  by (induction a rule: commands.induct) simp_all



lemma stderr_append: "stderr (a @ b) = stderr a @ stderr b"
  by (induction a rule: stderr.induct) simp_all












lemma commands_process_line:
  "commands (fst (process_line v inst raw)) = (if skipped (strip raw) then [] else [strip raw])"
proof (cases "skipped (strip raw)")
  case True
  then show ?thesis by (simp add: process_line_skipped)
next
  case False
  then show ?thesis
    by (cases "is_query (strip raw)")
       (simp_all add: process_line_query process_line_write split: sum.split option.split)
qed



lemma commands_loop:
  "commands (fst (loop v inst lines)) = filter (\<lambda>l. \<not> skipped l) (map strip lines)"
  by (induction lines arbitrary: inst)
     (simp_all add: loop_Cons commands_append commands_process_line del: loop.simps(2))



lemma loop_drop_skipped:
  assumes "skipped (strip raw)"
  shows "loop v inst (before @ raw # after) = loop v inst (before @ after)"
  by (simp add: loop_append [of _ _ before] loop_Cons process_line_skipped [OF assms]
        del: loop.simps(2))

lemma main_drop_skipped:
  assumes "skipped (strip raw)"
  shows "main v argv (before @ raw # after) = main v argv (before @ after)"
  by (simp add: main_def loop_drop_skipped [OF assms]
        split: parse_args.split option.split sum.split)

text \<open>The definitions to unfold when the script is run on a concrete input.\<close>

lemmas eval_defs = process_line_def strip_def lstrip_def rstrip_def isspace_def startswith_def
  skipped_def is_query_def bench_def main_def visa_adapter_def error_querying_def
  error_writing_def error_fatal_def calls_def

subsection \<open>Dispatch of one line\<close>

text \<open>
  C1. A line that is not skipped (not empty after stripping, not a comment) makes exactly
  one transport call: a query when the stripped line contains \<open>?\<close>, a write otherwise, in
  both cases from the current state of the instrument. A write prints nothing to standard
  output; a query that returns prints its response, stripped, and nothing else.
\<close>

theorem query_iff_question_mark:
  assumes "\<not> skipped (strip raw)"
  shows "calls (fst (process_line v inst raw)) =
           [if is_query (strip raw)
            then Query (strip raw) (fst (query v inst (strip raw)))
            else Write (strip raw) (fst (write v inst (strip raw)))]
       \<and> stdout (fst (process_line v inst raw)) =
           (if is_query (strip raw)
            then (case fst (query v inst (strip raw)) of
                    Inr response \<Rightarrow> [strip response] | Inl e \<Rightarrow> [])
            else [])
       \<and> snd (process_line v inst raw) =
           (if is_query (strip raw) then snd (query v inst (strip raw))
            else snd (write v inst (strip raw)))"
  using assms
  by (cases "is_query (strip raw)")
     (simp_all add: process_line_query process_line_write calls_def
        split: sum.split option.split)

theorem query_iff_question_mark_witness:
  "\<not> skipped (strip (''  *IDN?'' @ [CHR 0x0A]))
   \<and> calls (fst (process_line bench 0 (''  *IDN?'' @ [CHR 0x0A]))) =
       [Query ''*IDN?'' (Inr (''ACME,Model1,SN1,v1'' @ [CHR 0x0A]))]
   \<and> stdout (fst (process_line bench 0 (''  *IDN?'' @ [CHR 0x0A]))) = [''ACME,Model1,SN1,v1'']
   \<and> snd (process_line bench 0 (''  *IDN?'' @ [CHR 0x0A])) = 1"
proof -
  have h: "\<not> skipped (strip (''  *IDN?'' @ [CHR 0x0A]))"
    by (simp add: eval_defs)
  from query_iff_question_mark [OF h, of bench 0] show ?thesis
    using h by (simp add: eval_defs)
qed

text \<open>
  C9. The comment test comes first: a line that starts, after stripping, with \<open>#\<close> or
  \<open>//\<close> and contains \<open>?\<close> makes no transport call and leaves the instrument as it was,
  and its text is never a command of any run.
\<close>

theorem comment_wins_over_question_mark:
  assumes "startswith (strip raw) ''#'' \<or> startswith (strip raw) ''//''"
    and "CHR ''?'' \<in> set (strip raw)"
  shows "calls (fst (process_line v inst raw)) = []
       \<and> snd (process_line v inst raw) = inst
       \<and> strip raw \<notin> set (commands (fst (loop v inst' lines)))"
proof -
  have sk: "skipped (strip raw)" using assms(1) by (simp add: skipped_def)
  then show ?thesis
    by (simp add: process_line_skipped calls_def commands_loop)
qed

theorem comment_wins_over_question_mark_witness:
  "(startswith (strip ''# ready?'') ''#'' \<or> startswith (strip ''# ready?'') ''//'')
   \<and> CHR ''?'' \<in> set (strip ''# ready?'')
   \<and> calls (fst (process_line bench 0 ''# ready?'')) = []
   \<and> snd (process_line bench 0 ''# ready?'') = 0
   \<and> strip ''# ready?'' \<notin> set (commands (fst (loop bench 0 [''# ready?'', ''*IDN?''])))"
proof -
  have h1: "startswith (strip ''# ready?'') ''#'' \<or> startswith (strip ''# ready?'') ''//''"
    by (simp add: eval_defs)
  have h2: "CHR ''?'' \<in> set (strip ''# ready?'')"
    by (simp add: eval_defs)
  from comment_wins_over_question_mark
    [OF h1 h2, where v = bench and inst = "0::nat" and inst' = "0::nat"
       and lines = "[''# ready?'', ''*IDN?'']"]
  show ?thesis using h1 h2 by blast
qed

subsection \<open>The whole input\<close>





text \<open>
  C6. A line that is empty after stripping, or then starts with \<open>#\<close> or \<open>//\<close>, produces
  no event at all (no transport call, nothing on standard output or standard error) and
  leaves the instrument as it was: the loop and the whole script behave as if the line
  were not in the input.
\<close>

theorem skipped_line_leaves_no_trace:
  assumes "strip raw = [] \<or> startswith (strip raw) ''#'' \<or> startswith (strip raw) ''//''"
  shows "process_line v inst raw = ([], inst)
       \<and> loop v inst (before @ raw # after) = loop v inst (before @ after)
       \<and> visa_adapter m argv (before @ raw # after) = visa_adapter m argv (before @ after)"
proof -
  have sk: "skipped (strip raw)" using assms by (simp add: skipped_def)
  then show ?thesis
    by (simp add: process_line_skipped loop_drop_skipped main_drop_skipped visa_adapter_def
          split: option.split)
qed

theorem skipped_line_leaves_no_trace_witness:
  "(strip (''  // setup'' @ [CHR 0x0A]) = [] \<or> startswith (strip (''  // setup'' @ [CHR 0x0A])) ''#''
      \<or> startswith (strip (''  // setup'' @ [CHR 0x0A])) ''//'')
   \<and> process_line bench 0 (''  // setup'' @ [CHR 0x0A]) = ([], 0)
   \<and> visa_adapter (Some bench) (Namespace ''GPIB0::1::INSTR'' 5000)
        ([''OUTP ON''] @ (''  // setup'' @ [CHR 0x0A]) # [''*IDN?''])
     = visa_adapter (Some bench) (Namespace ''GPIB0::1::INSTR'' 5000) ([''OUTP ON''] @ [''*IDN?''])"
proof -
  have h: "strip (''  // setup'' @ [CHR 0x0A]) = []
      \<or> startswith (strip (''  // setup'' @ [CHR 0x0A])) ''#''
      \<or> startswith (strip (''  // setup'' @ [CHR 0x0A])) ''//''"
    by (simp add: eval_defs)
  from skipped_line_leaves_no_trace
    [OF h, where v = bench and inst = "0::nat" and before = "[''OUTP ON'']"
       and after = "[''*IDN?'']" and m = "Some bench"
       and argv = "Namespace ''GPIB0::1::INSTR'' 5000"]
  show ?thesis using h by blast
qed

subsection \<open>Failures\<close>





subsection \<open>Closing the connection\<close>




subsection \<open>Exit status\<close>







end
